theory Spec2Isabelle
  imports Main "HOL-Library.Sublist"
begin

section \<open>The card database API of \<open>src/main.py\<close>\<close>

text \<open>
  The program keeps one global, \<open>cards_data\<close>, holding whatever \<open>json.load\<close> returned
  for \<open>data/cards.json\<close>, and answers seven read-only queries over it. The queries are
  written for any JSON document: they test the shape with \<open>isinstance\<close>, call \<open>.get\<close> on
  what they take for a record and \<open>.lower()\<close> on what they take for a string. The model
  therefore works on JSON values, and every exception the Python can raise is a value of
  the result.
\<close>

subsection \<open>JSON values as Python sees them\<close>

text \<open>
  \<open>json.load\<close> gives \<open>None\<close>, a \<open>bool\<close>, an \<open>int\<close>, a \<open>str\<close>, a \<open>list\<close> or a
  \<open>dict\<close> with string keys. A \<open>dict\<close> keeps insertion order, so it is an association
  list; its keys are pairwise distinct (for a repeated key of the document \<open>json.load\<close>
  keeps one binding). JSON numbers with a fraction or an exponent, which Python reads as
  floats, are outside the model. A \<open>str\<close> is a \<open>string\<close>: the list of the bytes
  of its UTF-8 form, which for a text of ASCII characters is the list of its characters.
  Equality, concatenation and containment of one string in another are on the bytes what
  they are on the characters. Where Python goes through a \<open>str\<close> character by character
  (iteration, \<open>len\<close> and slices, which here can only happen to a \<open>str\<close> found in the
  place of the records), the model goes through the list, the same thing for ASCII text.
\<close>

datatype json =
    JNull
  | JBool bool
  | JInt int
  | JStr string
  | JList "json list"
  | JDict "(string \<times> json) list"

text \<open>
  An operation ends with its value, with an \<open>HTTPException\<close> raised by the code itself
  (status code and detail), or with an exception nobody catches (\<open>AttributeError\<close>,
  \<open>TypeError\<close>, \<open>KeyError\<close>).
\<close>

datatype error =
    HTTPException nat string
  | Uncaught

definition NotLoaded :: error where
  "NotLoaded = HTTPException 500 ''Cards data not loaded''"

definition NotFound :: error where
  "NotFound = HTTPException 404 ''Card not found''"

subsection \<open>Python built-ins used by the code\<close>

text \<open>Truth value of an object, as \<open>not x\<close> and \<open>if x\<close> test it.\<close>

fun truthy :: "json \<Rightarrow> bool" where
  "truthy JNull = False"
| "truthy (JBool b) = b"
| "truthy (JInt i) = (i \<noteq> 0)"
| "truthy (JStr s) = (s \<noteq> [])"
| "truthy (JList xs) = (xs \<noteq> [])"
| "truthy (JDict d) = (d \<noteq> [])"

text \<open>\<open>d.get(k, default)\<close>, \<open>k in d\<close> and \<open>list(d.values())\<close> on a \<open>dict\<close>.\<close>

definition dict_get :: "(string \<times> json) list \<Rightarrow> string \<Rightarrow> json \<Rightarrow> json" where
  "dict_get d k dflt = (case map_of d k of None \<Rightarrow> dflt | Some v \<Rightarrow> v)"

definition dict_values :: "(string \<times> json) list \<Rightarrow> json list" where
  "dict_values d = map snd d"

text \<open>\<open>x.get(k, default)\<close> on any object: only a \<open>dict\<close> has the method.\<close>

fun py_get :: "json \<Rightarrow> string \<Rightarrow> json \<Rightarrow> error + json" where
  "py_get (JDict d) k dflt = Inr (dict_get d k dflt)"
| "py_get _ k dflt = Inl Uncaught"

text \<open>
  \<open>str.lower()\<close> is the case mapping of the Python runtime, over all of Unicode and
  with its rules of context. It is no code of the program and is not written out here:
  the operations that call it take it as their first argument \<open>lower\<close>, a function from
  strings to strings, and what is proved of them holds for every such function.

  \<open>x.lower()\<close> on any object: only a \<open>str\<close> has the method.
\<close>

fun py_lower :: "(string \<Rightarrow> string) \<Rightarrow> json \<Rightarrow> error + string" where
  "py_lower lower (JStr s) = Inr (lower s)"
| "py_lower lower _ = Inl Uncaught"

text \<open>\<open>a in b\<close> on two strings: \<open>a\<close> occurs in \<open>b\<close> as a contiguous piece.\<close>

fun str_in :: "string \<Rightarrow> string \<Rightarrow> bool" where
  "str_in a [] = (a = [])"
| "str_in a (c # cs) = (prefix a (c # cs) \<or> str_in a cs)"

text \<open>
  \<open>for x in xs\<close>: a list gives its elements, a \<open>dict\<close> its keys, a \<open>str\<close> its
  characters; nothing else can be iterated.
\<close>

fun py_iter :: "json \<Rightarrow> error + json list" where
  "py_iter (JList xs) = Inr xs"
| "py_iter (JDict d) = Inr (map (\<lambda>kv. JStr (fst kv)) d)"
| "py_iter (JStr s) = Inr (map (\<lambda>c. JStr [c]) s)"
| "py_iter _ = Inl Uncaught"

text \<open>\<open>len(x)\<close>.\<close>

fun py_len :: "json \<Rightarrow> error + int" where
  "py_len (JList xs) = Inr (int (length xs))"
| "py_len (JDict d) = Inr (int (length d))"
| "py_len (JStr s) = Inr (int (length s))"
| "py_len _ = Inl Uncaught"

text \<open>
  The slices \<open>xs[i:]\<close> and \<open>xs[:i]\<close>; a negative bound counts from the end. A list and
  a \<open>str\<close> can be sliced, nothing else.
\<close>

definition slice_from :: "'a list \<Rightarrow> int \<Rightarrow> 'a list" where
  "slice_from xs i =
     (if 0 \<le> i then drop (nat i) xs else drop (length xs - nat (- i)) xs)"

definition slice_to :: "'a list \<Rightarrow> int \<Rightarrow> 'a list" where
  "slice_to xs i =
     (if 0 \<le> i then take (nat i) xs else take (length xs - nat (- i)) xs)"

fun py_slice_from :: "json \<Rightarrow> int \<Rightarrow> error + json" where
  "py_slice_from (JList xs) i = Inr (JList (slice_from xs i))"
| "py_slice_from (JStr s) i = Inr (JStr (slice_from s i))"
| "py_slice_from _ i = Inl Uncaught"

fun py_slice_to :: "json \<Rightarrow> int \<Rightarrow> error + json" where
  "py_slice_to (JList xs) i = Inr (JList (slice_to xs i))"
| "py_slice_to (JStr s) i = Inr (JStr (slice_to s i))"
| "py_slice_to _ i = Inl Uncaught"

text \<open>
  \<open>str(x)\<close>. A \<open>str\<close> is itself; everything else prints as its \<open>repr\<close>: \<open>None\<close>,
  \<open>True\<close>, \<open>False\<close>, the decimal digits of an \<open>int\<close>, a list in brackets, a
  \<open>dict\<close> in braces, a nested \<open>str\<close> in quotes with its escapes.
\<close>

definition digit_char :: "nat \<Rightarrow> char" where
  "digit_char n = char_of (48 + n)"

fun str_nat :: "nat \<Rightarrow> string" where
  "str_nat n = (if n < 10 then [digit_char n] else str_nat (n div 10) @ [digit_char (n mod 10)])"

declare str_nat.simps [simp del]

definition str_int :: "int \<Rightarrow> string" where
  "str_int i = (if i < 0 then CHR ''-'' # str_nat (nat (- i)) else str_nat (nat i))"

definition hex_char :: "nat \<Rightarrow> char" where
  "hex_char n = (if n < 10 then char_of (48 + n) else char_of (87 + n))"

definition repr_quote :: "string \<Rightarrow> char" where
  "repr_quote s = (if CHR 0x27 \<in> set s \<and> CHR 0x22 \<notin> set s then CHR 0x22 else CHR 0x27)"

definition repr_char :: "char \<Rightarrow> char \<Rightarrow> string" where
  "repr_char q c =
     (let n = (of_char c :: nat) in
      if c = q \<or> c = CHR 0x5C then [CHR 0x5C, c]
      else if n = 9 then [CHR 0x5C, CHR ''t'']
      else if n = 10 then [CHR 0x5C, CHR ''n'']
      else if n = 13 then [CHR 0x5C, CHR ''r'']
      else if n < 32 \<or> n = 127 then [CHR 0x5C, CHR ''x'', hex_char (n div 16), hex_char (n mod 16)]
      else [c])"

definition repr_str :: "string \<Rightarrow> string" where
  "repr_str s = (let q = repr_quote s in q # concat (map (repr_char q) s) @ [q])"

fun join :: "string \<Rightarrow> string list \<Rightarrow> string" where
  "join sep [] = []"
| "join sep [x] = x"
| "join sep (x # y # ys) = x @ sep @ join sep (y # ys)"

fun py_repr :: "json \<Rightarrow> string" where
  "py_repr JNull = ''None''"
| "py_repr (JBool b) = (if b then ''True'' else ''False'')"
| "py_repr (JInt i) = str_int i"
| "py_repr (JStr s) = repr_str s"
| "py_repr (JList xs) = ''['' @ join '', '' (map py_repr xs) @ '']''"
| "py_repr (JDict d) =
     ''{'' @ join '', '' (map (\<lambda>kv. repr_str (fst kv) @ '': '' @ py_repr (snd kv)) d) @ ''}''"

fun py_str :: "json \<Rightarrow> string" where
  "py_str (JStr s) = s"
| "py_str v = py_repr v"

subsection \<open>The frequency tables of the statistics\<close>

text \<open>
  \<open>types\<close>, \<open>rarities\<close> and \<open>sets\<close> are Python dictionaries from labels to counts,
  again association lists in insertion order. A key must be hashable (a list or a
  \<open>dict\<close> is not), and keys are compared with \<open>==\<close>, for which \<open>True\<close> is \<open>1\<close> and
  \<open>False\<close> is \<open>0\<close>.
\<close>

type_synonym table = "(json \<times> int) list"

fun hashable :: "json \<Rightarrow> bool" where
  "hashable (JList xs) = False"
| "hashable (JDict d) = False"
| "hashable _ = True"

fun num_of :: "json \<Rightarrow> int option" where
  "num_of (JBool b) = Some (if b then 1 else 0)"
| "num_of (JInt i) = Some i"
| "num_of _ = None"

definition py_eq :: "json \<Rightarrow> json \<Rightarrow> bool" where
  "py_eq x y =
     (case num_of x of
        Some a \<Rightarrow> (case num_of y of Some b \<Rightarrow> a = b | None \<Rightarrow> False)
      | None \<Rightarrow> x = y)"

text \<open>\<open>t.get(k, default)\<close> and \<open>t[k] = v\<close> on a table.\<close>

fun tbl_get :: "table \<Rightarrow> json \<Rightarrow> int \<Rightarrow> int" where
  "tbl_get [] k dflt = dflt"
| "tbl_get ((k', c) # t) k dflt = (if py_eq k' k then c else tbl_get t k dflt)"

fun tbl_set :: "table \<Rightarrow> json \<Rightarrow> int \<Rightarrow> table" where
  "tbl_set [] k v = [(k, v)]"
| "tbl_set ((k', c) # t) k v = (if py_eq k' k then (k', v) # t else (k', c) # tbl_set t k v)"

text \<open>The statement \<open>t[k] = t.get(k, 0) + 1\<close>.\<close>

definition tbl_incr :: "table \<Rightarrow> json \<Rightarrow> error + table" where
  "tbl_incr t k = (if hashable k then Inr (tbl_set t k (tbl_get t k 0 + 1)) else Inl Uncaught)"

subsection \<open>Loading\<close>

text \<open>
  What opening and parsing \<open>data/cards.json\<close> comes to: the file is missing, it is not
  JSON, or it is a document.
\<close>

datatype source = FileNotFoundError | JSONDecodeError | Document json

fun load_cards_data :: "source \<Rightarrow> error + json" where
  "load_cards_data (Document v) = Inr v"
| "load_cards_data FileNotFoundError = Inl (HTTPException 500 ''Cards data file not found'')"
| "load_cards_data JSONDecodeError = Inl (HTTPException 500 ''Invalid JSON format in cards data'')"

text \<open>
  The global \<open>cards_data\<close> is \<open>None\<close> until the startup handler assigns it. The handler
  returns the exception it ended with, if any, and the global afterwards.
\<close>

definition initial_cards_data :: "json option" where
  "initial_cards_data = None"

definition startup_event :: "source \<Rightarrow> json option \<Rightarrow> error option \<times> json option" where
  "startup_event src cards_data =
     (case load_cards_data src of
        Inl e \<Rightarrow> (Some e, cards_data)
      | Inr v \<Rightarrow> (None, Some v))"

text \<open>The guard \<open>if not cards_data\<close> that opens every operation.\<close>

definition not_data :: "json option \<Rightarrow> bool" where
  "not_data cards_data = (case cards_data of None \<Rightarrow> True | Some v \<Rightarrow> \<not> truthy v)"

subsection \<open>The operations\<close>

text \<open>\<open>GET /cards\<close>. \<open>if limit\<close> holds for a limit that is given and not zero.\<close>

definition get_all_cards :: "json option \<Rightarrow> int option \<Rightarrow> int \<Rightarrow> error + json" where
  "get_all_cards cards_data limit offset =
     (if not_data cards_data then Inl NotLoaded
      else
        let cards =
          (case the cards_data of
             JList xs \<Rightarrow> JList xs
           | JDict d \<Rightarrow> dict_get d ''cards'' (JList (dict_values d))
           | _ \<Rightarrow> JList [])
        in case py_slice_from cards offset of
             Inl e \<Rightarrow> Inl e
           | Inr cards' \<Rightarrow>
               (case limit of
                  None \<Rightarrow> Inr cards'
                | Some l \<Rightarrow> if l \<noteq> 0 then py_slice_to cards' l else Inr cards'))"

text \<open>
  \<open>GET /cards/{set_id}/{card_id}\<close>. The loop returns the first card whose \<open>id\<close>,
  through \<open>str\<close>, is the key; \<open>Inr None\<close> is the loop running to its end. The loop
  variable \<open>card\<close> of the source is \<open>c\<close> here and below.
\<close>

fun find_card :: "string \<Rightarrow> json list \<Rightarrow> error + json option" where
  "find_card key [] = Inr None"
| "find_card key (c # cards) =
     (case py_get c ''id'' JNull of
        Inl e \<Rightarrow> Inl e
      | Inr v \<Rightarrow> if py_str v = key then Inr (Some c) else find_card key cards)"

definition found_or_404 :: "error + json option \<Rightarrow> error + json" where
  "found_or_404 r =
     (case r of Inl e \<Rightarrow> Inl e | Inr None \<Rightarrow> Inl NotFound | Inr (Some c) \<Rightarrow> Inr c)"

definition get_card_by_id :: "json option \<Rightarrow> string \<Rightarrow> string \<Rightarrow> error + json" where
  "get_card_by_id cards_data set_id card_id =
     (let key = ''/'' @ set_id @ ''/'' @ card_id in
      if not_data cards_data then Inl NotLoaded
      else
        case the cards_data of
          JList xs \<Rightarrow> found_or_404 (find_card key xs)
        | JDict d \<Rightarrow>
            (case map_of d key of
               Some v \<Rightarrow> Inr v
             | None \<Rightarrow>
                 (case py_iter (dict_get d ''cards'' (JList [])) of
                    Inl e \<Rightarrow> Inl e
                  | Inr cards \<Rightarrow> found_or_404 (find_card key cards)))
        | _ \<Rightarrow> Inl NotFound)"

text \<open>
  The expression that search, the three filters and the statistics use for \<open>cards\<close>:
  \<^verbatim>\<open>cards_data if isinstance(cards_data, list) else cards_data.get("cards", ...)\<close>.
\<close>

fun select_cards :: "json \<Rightarrow> error + json" where
  "select_cards (JList xs) = Inr (JList xs)"
| "select_cards (JDict d) = Inr (dict_get d ''cards'' (JList (dict_values d)))"
| "select_cards _ = Inl Uncaught"

text \<open>\<open>GET /cards/search/name/{name}\<close>.\<close>

fun search_loop :: "(string \<Rightarrow> string) \<Rightarrow> string \<Rightarrow> json list \<Rightarrow> json list \<Rightarrow> error + json list" where
  "search_loop lower name [] matching_cards = Inr matching_cards"
| "search_loop lower name (c # cards) matching_cards =
     (case py_get c ''name'' (JStr []) of
        Inl e \<Rightarrow> Inl e
      | Inr card_name \<Rightarrow>
          (case py_lower lower card_name of
             Inl e \<Rightarrow> Inl e
           | Inr low \<Rightarrow>
               if str_in (lower name) low
               then search_loop lower name cards (matching_cards @ [c])
               else search_loop lower name cards matching_cards))"

definition search_cards_by_name :: "(string \<Rightarrow> string) \<Rightarrow> json option \<Rightarrow> string \<Rightarrow> error + json list" where
  "search_cards_by_name lower cards_data name =
     (if not_data cards_data then Inl NotLoaded
      else
        case select_cards (the cards_data) of
          Inl e \<Rightarrow> Inl e
        | Inr cards \<Rightarrow>
            (case py_iter cards of
               Inl e \<Rightarrow> Inl e
             | Inr cs \<Rightarrow> search_loop lower name cs []))"

text \<open>
  \<open>GET /cards/filter/type/{card_type}\<close>, \<open>.../rarity/{rarity}\<close> and
  \<open>.../set/{set_name}\<close>: three copies of one body that differ in the field read.
\<close>

fun filter_loop :: "(string \<Rightarrow> string) \<Rightarrow> string \<Rightarrow> string \<Rightarrow> json list \<Rightarrow> json list \<Rightarrow> error + json list" where
  "filter_loop lower field val [] matching_cards = Inr matching_cards"
| "filter_loop lower field val (c # cards) matching_cards =
     (case py_get c field (JStr []) of
        Inl e \<Rightarrow> Inl e
      | Inr v \<Rightarrow>
          (case py_lower lower v of
             Inl e \<Rightarrow> Inl e
           | Inr low \<Rightarrow>
               if low = lower val
               then filter_loop lower field val cards (matching_cards @ [c])
               else filter_loop lower field val cards matching_cards))"

definition filter_cards :: "(string \<Rightarrow> string) \<Rightarrow> string \<Rightarrow> json option \<Rightarrow> string \<Rightarrow> error + json list" where
  "filter_cards lower field cards_data val =
     (if not_data cards_data then Inl NotLoaded
      else
        case select_cards (the cards_data) of
          Inl e \<Rightarrow> Inl e
        | Inr cards \<Rightarrow>
            (case py_iter cards of
               Inl e \<Rightarrow> Inl e
             | Inr cs \<Rightarrow> filter_loop lower field val cs []))"

definition filter_cards_by_type :: "(string \<Rightarrow> string) \<Rightarrow> json option \<Rightarrow> string \<Rightarrow> error + json list" where
  "filter_cards_by_type lower cards_data card_type = filter_cards lower ''type'' cards_data card_type"

definition filter_cards_by_rarity :: "(string \<Rightarrow> string) \<Rightarrow> json option \<Rightarrow> string \<Rightarrow> error + json list" where
  "filter_cards_by_rarity lower cards_data rarity = filter_cards lower ''rarity'' cards_data rarity"

definition filter_cards_by_set :: "(string \<Rightarrow> string) \<Rightarrow> json option \<Rightarrow> string \<Rightarrow> error + json list" where
  "filter_cards_by_set lower cards_data set_name = filter_cards lower ''set'' cards_data set_name"

text \<open>\<open>GET /stats\<close>.\<close>

record stats =
  total_cards :: int
  types :: table
  rarities :: table
  sets :: table

fun stats_loop :: "json list \<Rightarrow> table \<Rightarrow> table \<Rightarrow> table \<Rightarrow> error + (table \<times> table \<times> table)" where
  "stats_loop [] ts rs ss = Inr (ts, rs, ss)"
| "stats_loop (c # cards) ts rs ss =
     (case py_get c ''type'' (JStr ''Unknown'') of
        Inl e \<Rightarrow> Inl e
      | Inr card_type \<Rightarrow>
     (case py_get c ''rarity'' (JStr ''Unknown'') of
        Inl e \<Rightarrow> Inl e
      | Inr rarity \<Rightarrow>
     (case py_get c ''set'' (JStr ''Unknown'') of
        Inl e \<Rightarrow> Inl e
      | Inr card_set \<Rightarrow>
     (case tbl_incr ts card_type of
        Inl e \<Rightarrow> Inl e
      | Inr ts' \<Rightarrow>
     (case tbl_incr rs rarity of
        Inl e \<Rightarrow> Inl e
      | Inr rs' \<Rightarrow>
     (case tbl_incr ss card_set of
        Inl e \<Rightarrow> Inl e
      | Inr ss' \<Rightarrow> stats_loop cards ts' rs' ss'))))))"

definition get_stats :: "json option \<Rightarrow> error + stats" where
  "get_stats cards_data =
     (if not_data cards_data then Inl NotLoaded
      else
        case select_cards (the cards_data) of
          Inl e \<Rightarrow> Inl e
        | Inr cards \<Rightarrow>
            (case py_len cards of
               Inl e \<Rightarrow> Inl e
             | Inr n \<Rightarrow>
                 (case py_iter cards of
                    Inl e \<Rightarrow> Inl e
                  | Inr cs \<Rightarrow>
                      (case stats_loop cs [] [] [] of
                         Inl e \<Rightarrow> Inl e
                       | Inr (ts, rs, ss) \<Rightarrow>
                           Inr \<lparr>total_cards = n, types = ts, rarities = rs, sets = ss\<rparr>))))"

subsection \<open>Card records\<close>

text \<open>
  The class \<open>Card\<close> of the source names the fields of a record: \<open>id\<close>, \<open>name\<close>,
  \<open>type\<close>, \<open>rarity\<close> and \<open>set\<close>, each a string and each optional. The operations read a
  record with \<open>card.get(field, default)\<close>. The functions below say what that read gives
  on a record, and when a value is a record whose field, where present, is a string.
\<close>

fun is_record :: "json \<Rightarrow> bool" where
  "is_record (JDict d) = True"
| "is_record _ = False"

fun is_str :: "json \<Rightarrow> bool" where
  "is_str (JStr s) = True"
| "is_str _ = False"

fun str_of :: "json \<Rightarrow> string" where
  "str_of (JStr s) = s"
| "str_of _ = []"

fun field_value :: "string \<Rightarrow> json \<Rightarrow> json \<Rightarrow> json" where
  "field_value f dflt (JDict d) = dict_get d f dflt"
| "field_value f dflt _ = dflt"

definition field_text :: "string \<Rightarrow> string \<Rightarrow> json \<Rightarrow> string" where
  "field_text f dflt c = str_of (field_value f (JStr dflt) c)"

definition has_text :: "string \<Rightarrow> json \<Rightarrow> bool" where
  "has_text f c = (is_record c \<and> is_str (field_value f (JStr []) c))"

definition stats_record :: "json \<Rightarrow> bool" where
  "stats_record c = (has_text ''type'' c \<and> has_text ''rarity'' c \<and> has_text ''set'' c)"

text \<open>One step of a tally, and the label a record contributes to the table of a field.\<close>

definition tally :: "table \<Rightarrow> json \<Rightarrow> table" where
  "tally t k = tbl_set t k (tbl_get t k 0 + 1)"

definition label :: "string \<Rightarrow> json \<Rightarrow> json" where
  "label f c = field_value f (JStr ''Unknown'') c"

text \<open>The two records of the scenario in the specification.\<close>

definition pikachu :: json where
  "pikachu = JDict [(''id'', JStr ''/A1/001''), (''name'', JStr ''Pikachu''),
     (''type'', JStr ''Electric''), (''rarity'', JStr ''Common''), (''set'', JStr ''A1'')]"

definition bulbasaur :: json where
  "bulbasaur = JDict [(''id'', JStr ''/A1/002''), (''name'', JStr ''Bulbasaur''),
     (''type'', JStr ''Grass''), (''rarity'', JStr ''Common''), (''set'', JStr ''A1'')]"

text \<open>
  The six answers that depend on the choice of the record sequence, side by side:
  listing, search, the three filters and the statistics.
\<close>

definition answers ::
  "(string \<Rightarrow> string) \<Rightarrow> json option \<Rightarrow> int option \<Rightarrow> int \<Rightarrow> string \<Rightarrow>
   (error + json) \<times> (error + json list) \<times> (error + json list) \<times> (error + json list)
     \<times> (error + json list) \<times> (error + stats)" where
  "answers lower cards_data limit offset q =
     (get_all_cards cards_data limit offset,
      search_cards_by_name lower cards_data q,
      filter_cards_by_type lower cards_data q,
      filter_cards_by_rarity lower cards_data q,
      filter_cards_by_set lower cards_data q,
      get_stats cards_data)"

text \<open>The values that can be neither iterated nor sliced: \<open>None\<close>, a \<open>bool\<close>, an \<open>int\<close>.\<close>

fun not_iterable :: "json \<Rightarrow> bool" where
  "not_iterable JNull = True"
| "not_iterable (JBool b) = True"
| "not_iterable (JInt i) = True"
| "not_iterable _ = False"

definition no_stats :: stats where
  "no_stats = \<lparr>total_cards = 0, types = [], rarities = [], sets = []\<rparr>"

text \<open>
  To run the operations on a concrete input, a case mapping has to be given. On a text of
  ASCII characters \<open>str.lower()\<close> sends the letters \<open>A\<close> to \<open>Z\<close> to \<open>a\<close> to \<open>z\<close> and
  leaves the rest; \<open>ascii_lower\<close> does that to every text, so it is \<open>str.lower()\<close> on
  ASCII text, and it is the case mapping given to the operations in the examples.
\<close>

definition ascii_lower_char :: "char \<Rightarrow> char" where
  "ascii_lower_char c =
     (let n = (of_char c :: nat) in if 65 \<le> n \<and> n \<le> 90 then char_of (n + 32) else c)"

definition ascii_lower :: "string \<Rightarrow> string" where
  "ascii_lower s = map ascii_lower_char s"

section \<open>Lemmas about the loops\<close>

lemma str_in_sublist: "str_in a b = sublist a b"
  by (induction b) (simp_all add: sublist_Cons_right)

lemma py_get_record: "is_record c \<Longrightarrow> py_get c f dflt = Inr (field_value f dflt c)"
  by (cases c) simp_all

lemma py_lower_text: "is_str v \<Longrightarrow> py_lower lower v = Inr (lower (str_of v))"
  by (cases v) simp_all

lemma has_text_default: "has_text f c \<Longrightarrow> is_str (field_value f (JStr dflt) c)"
  by (cases c) (auto simp: has_text_def dict_get_def split: option.splits)

lemma search_loop_filter:
  "list_all (has_text ''name'') cs \<Longrightarrow>
   search_loop lower q cs acc =
     Inr (acc @ filter (\<lambda>c. sublist (lower q) (lower (field_text ''name'' [] c))) cs)"
proof (induction cs arbitrary: acc)
  case Nil
  show ?case by simp
next
  case (Cons c cs)
  from Cons.prems have c: "has_text ''name'' c" and cs: "list_all (has_text ''name'') cs"
    by simp_all
  from c have r: "is_record c" and s: "is_str (field_value ''name'' (JStr []) c)"
    by (simp_all add: has_text_def)
  show ?case
    by (simp add: py_get_record [OF r] py_lower_text [OF s] Cons.IH [OF cs]
        str_in_sublist field_text_def)
qed

lemma filter_loop_filter:
  "list_all (has_text f) cs \<Longrightarrow>
   filter_loop lower f v cs acc =
     Inr (acc @ filter (\<lambda>c. lower (field_text f [] c) = lower v) cs)"
proof (induction cs arbitrary: acc)
  case Nil
  show ?case by simp
next
  case (Cons c cs)
  from Cons.prems have c: "has_text f c" and cs: "list_all (has_text f) cs"
    by simp_all
  from c have r: "is_record c" and s: "is_str (field_value f (JStr []) c)"
    by (simp_all add: has_text_def)
  show ?case
    by (simp add: py_get_record [OF r] py_lower_text [OF s] Cons.IH [OF cs] field_text_def)
qed

lemma find_card_find:
  "list_all is_record cs \<Longrightarrow>
   find_card key cs = Inr (find (\<lambda>c. py_str (field_value ''id'' JNull c) = key) cs)"
proof (induction cs)
  case Nil
  show ?case by simp
next
  case (Cons c cs)
  then show ?case by (simp add: py_get_record)
qed

lemma py_eq_str: "py_eq k (JStr s) \<longleftrightarrow> k = JStr s"
  by (cases k) (simp_all add: py_eq_def)

lemma tbl_incr_text: "is_str k \<Longrightarrow> tbl_incr t k = Inr (tally t k)"
  by (cases k) (simp_all add: tbl_incr_def tally_def)

lemma sum_tbl_set:
  "sum_list (map snd (tbl_set t k v)) = sum_list (map snd t) - tbl_get t k 0 + v"
  by (induction t) auto

lemma sum_tally: "sum_list (map snd (tally t k)) = sum_list (map snd t) + 1"
  by (simp add: tally_def sum_tbl_set)

lemma tbl_get_set_str:
  "tbl_get (tbl_set t (JStr a) v) (JStr b) dflt =
     (if a = b then v else tbl_get t (JStr b) dflt)"
  by (induction t) (auto simp: py_eq_str)

lemma tbl_get_tally:
  "tbl_get (tally t (JStr a)) (JStr b) 0 =
     (if a = b then tbl_get t (JStr b) 0 + 1 else tbl_get t (JStr b) 0)"
  by (simp add: tally_def tbl_get_set_str)

lemma keys_tbl_set_str:
  "fst ` set (tbl_set t (JStr a) v) = insert (JStr a) (fst ` set t)"
proof (induction t)
  case Nil
  show ?case by simp
next
  case (Cons p t)
  obtain k c where p: "p = (k, c)"
    by (cases p)
  show ?case
    by (cases "k = JStr a") (simp_all add: p py_eq_str Cons.IH insert_commute)
qed

lemma keys_tally_str:
  "fst ` set (tally t (JStr a)) = insert (JStr a) (fst ` set t)"
  by (simp add: tally_def keys_tbl_set_str)

lemma sum_fold_tally:
  "sum_list (map snd (fold (\<lambda>c t. tally t (g c)) cs t)) = sum_list (map snd t) + int (length cs)"
  by (induction cs arbitrary: t) (simp_all add: sum_tally)

lemma get_fold_tally:
  "list_all (\<lambda>c. is_str (g c)) cs \<Longrightarrow>
   tbl_get (fold (\<lambda>c t. tally t (g c)) cs t) (JStr b) 0 =
     tbl_get t (JStr b) 0 + int (length (filter (\<lambda>c. str_of (g c) = b) cs))"
proof (induction cs arbitrary: t)
  case Nil
  show ?case by simp
next
  case (Cons c cs)
  from Cons.prems obtain a where a: "g c = JStr a"
    by (cases "g c") simp_all
  from Cons.prems have cs: "list_all (\<lambda>c. is_str (g c)) cs"
    by simp
  show ?case
    by (simp add: Cons.IH [OF cs] a tbl_get_tally)
qed

lemma keys_fold_tally:
  "list_all (\<lambda>c. is_str (g c)) cs \<Longrightarrow>
   fst ` set (fold (\<lambda>c t. tally t (g c)) cs t) = fst ` set t \<union> g ` set cs"
proof (induction cs arbitrary: t)
  case Nil
  show ?case by simp
next
  case (Cons c cs)
  from Cons.prems obtain a where a: "g c = JStr a"
    by (cases "g c") simp_all
  from Cons.prems have cs: "list_all (\<lambda>c. is_str (g c)) cs"
    by simp
  show ?case
    by (auto simp: Cons.IH [OF cs] a keys_tally_str)
qed

lemma stats_loop_fold:
  "list_all stats_record cs \<Longrightarrow>
   stats_loop cs ts rs ss =
     Inr (fold (\<lambda>c t. tally t (label ''type'' c)) cs ts,
          fold (\<lambda>c t. tally t (label ''rarity'' c)) cs rs,
          fold (\<lambda>c t. tally t (label ''set'' c)) cs ss)"
proof (induction cs arbitrary: ts rs ss)
  case Nil
  show ?case by simp
next
  case (Cons c cs)
  from Cons.prems have c: "stats_record c" and cs: "list_all stats_record cs"
    by simp_all
  from c have r: "is_record c"
    by (simp add: stats_record_def has_text_def)
  from c have t: "is_str (label ''type'' c)" "is_str (label ''rarity'' c)" "is_str (label ''set'' c)"
    by (simp_all add: stats_record_def label_def has_text_default)
  show ?case
    using t by (simp add: py_get_record [OF r] tbl_incr_text Cons.IH [OF cs] label_def)
qed


lemma listing_cards:
  "truthy doc \<Longrightarrow> select_cards doc = Inr (JList cs) \<Longrightarrow>
   get_all_cards (Some doc) limit offset =
     Inr (JList (case limit of
                   None \<Rightarrow> slice_from cs offset
                 | Some l \<Rightarrow> if l \<noteq> 0 then slice_to (slice_from cs offset) l
                            else slice_from cs offset))"
  by (cases doc) (auto simp: get_all_cards_def not_data_def split: option.splits)

lemma scanning_cards:
  "truthy doc \<Longrightarrow> select_cards doc = Inr (JList cs) \<Longrightarrow>
   search_cards_by_name lower (Some doc) q = search_loop lower q cs []
   \<and> filter_cards lower f (Some doc) v = filter_loop lower f v cs []"
  by (simp add: search_cards_by_name_def filter_cards_def not_data_def)

lemma truthy_selected:
  "select_cards doc = Inr (JList cs) \<Longrightarrow> cs \<noteq> [] \<Longrightarrow> truthy doc"
  by (cases doc) (auto simp: dict_get_def dict_values_def split: option.splits)

subsection \<open>Case mapping, the printed form of a value, and the choice of the records\<close>

lemma search_loop_lower:
  "lower a = lower b \<Longrightarrow> search_loop lower a cs acc = search_loop lower b cs acc"
  by (induction cs arbitrary: acc) (simp_all split: sum.splits)

lemma filter_loop_lower:
  "lower a = lower b \<Longrightarrow> filter_loop lower f a cs acc = filter_loop lower f b cs acc"
  by (induction cs arbitrary: acc) (simp_all split: sum.splits)


lemma digit_char_not_slash: "n < 10 \<Longrightarrow> digit_char n \<noteq> CHR ''/''"
  by (simp add: digit_char_def char_of_eq_iff take_bit_eq_mod)

lemma str_nat_first: "str_nat n \<noteq> [] \<and> hd (str_nat n) \<noteq> CHR ''/''"
proof (induction n rule: str_nat.induct)
  case (1 n)
  show ?case
  proof (cases "n < 10")
    case True
    then show ?thesis
      by (subst (1 2) str_nat.simps) (simp add: digit_char_not_slash)
  next
    case False
    with 1 show ?thesis
      by (subst (1 2) str_nat.simps) simp
  qed
qed

lemma str_int_first: "str_int i \<noteq> CHR ''/'' # s"
proof -
  from str_nat_first [of "nat i"] have "str_nat (nat i) \<noteq> CHR ''/'' # s"
    by (cases "str_nat (nat i)") auto
  then show ?thesis
    by (simp add: str_int_def)
qed

lemma py_repr_first: "py_repr v \<noteq> CHR ''/'' # s"
  by (cases v) (simp_all add: str_int_first repr_str_def repr_quote_def Let_def)

lemma py_str_slash: "py_str v = CHR ''/'' # s \<longleftrightarrow> v = JStr (CHR ''/'' # s)"
proof (cases v)
  case (JStr t)
  then show ?thesis by simp
qed (use py_repr_first in \<open>simp_all del: py_repr.simps\<close>)


lemma selected_ops:
  assumes "select_cards doc = Inr (JList cs)" and "cs \<noteq> []"
  shows "get_all_cards (Some doc) limit offset = get_all_cards (Some (JList cs)) limit offset"
    and "search_cards_by_name lower (Some doc) q = search_cards_by_name lower (Some (JList cs)) q"
    and "filter_cards lower f (Some doc) q = filter_cards lower f (Some (JList cs)) q"
    and "get_stats (Some doc) = get_stats (Some (JList cs))"
proof -
  note t = truthy_selected [OF assms]
  have t': "truthy (JList cs)" and s': "select_cards (JList cs) = Inr (JList cs)"
    using assms(2) by simp_all
  show "get_all_cards (Some doc) limit offset = get_all_cards (Some (JList cs)) limit offset"
    by (simp only: listing_cards [OF t assms(1)] listing_cards [OF t' s'])
  show "search_cards_by_name lower (Some doc) q = search_cards_by_name lower (Some (JList cs)) q"
    using t t' assms(1) by (simp add: search_cards_by_name_def not_data_def)
  show "filter_cards lower f (Some doc) q = filter_cards lower f (Some (JList cs)) q"
    using t t' assms(1) by (simp add: filter_cards_def not_data_def)
  show "get_stats (Some doc) = get_stats (Some (JList cs))"
    using t t' assms(1) by (simp add: get_stats_def not_data_def)
qed

lemma scan_result:
  "list_all is_record cs \<Longrightarrow>
   found_or_404 (find_card key cs) =
     (case find (\<lambda>c. py_str (field_value ''id'' JNull c) = key) cs of
        Some c \<Rightarrow> Inr c
      | None \<Rightarrow> Inl NotFound)"
  by (simp add: find_card_find found_or_404_def)

lemma ascii_lower_char_idem: "ascii_lower_char (ascii_lower_char c) = ascii_lower_char c"
  by (simp add: ascii_lower_char_def Let_def)

lemma ascii_lower_idem: "ascii_lower (ascii_lower s) = ascii_lower s"
  by (simp add: ascii_lower_def ascii_lower_char_idem)

lemma cards_bound:
  assumes "map_of d ''cards'' = Some v"
  shows "answers lower (Some (JDict d)) limit offset q =
     (case py_slice_from v offset of
        Inl e \<Rightarrow> Inl e
      | Inr cards' \<Rightarrow>
          (case limit of
             None \<Rightarrow> Inr cards'
           | Some l \<Rightarrow> if l \<noteq> 0 then py_slice_to cards' l else Inr cards'),
      case py_iter v of Inl e \<Rightarrow> Inl e | Inr cs \<Rightarrow> search_loop lower q cs [],
      case py_iter v of Inl e \<Rightarrow> Inl e | Inr cs \<Rightarrow> filter_loop lower ''type'' q cs [],
      case py_iter v of Inl e \<Rightarrow> Inl e | Inr cs \<Rightarrow> filter_loop lower ''rarity'' q cs [],
      case py_iter v of Inl e \<Rightarrow> Inl e | Inr cs \<Rightarrow> filter_loop lower ''set'' q cs [],
      case py_len v of
        Inl e \<Rightarrow> Inl e
      | Inr n \<Rightarrow>
          (case py_iter v of
             Inl e \<Rightarrow> Inl e
           | Inr cs \<Rightarrow>
               (case stats_loop cs [] [] [] of
                  Inl e \<Rightarrow> Inl e
                | Inr (ts, rs, ss) \<Rightarrow>
                    Inr \<lparr>total_cards = n, types = ts, rarities = rs, sets = ss\<rparr>)))"
proof -
  from assms have "d \<noteq> []" by auto
  with assms show ?thesis
    by (simp add: answers_def get_all_cards_def search_cards_by_name_def filter_cards_def
        filter_cards_by_type_def filter_cards_by_rarity_def filter_cards_by_set_def
        get_stats_def not_data_def dict_get_def)
qed

section \<open>Properties\<close>

subsection \<open>Operations before a successful load\<close>

text \<open>
  Claim C8. While the global \<open>cards_data\<close> has not been assigned by a successful startup
  load, each of the seven operations fails with the not-loaded error, whatever its
  arguments; and a startup whose load fails (missing file, malformed JSON) leaves the
  global unassigned.
\<close>

theorem unpublished_not_loaded:
  "get_all_cards None limit offset = Inl NotLoaded
   \<and> get_card_by_id None set_id card_id = Inl NotLoaded
   \<and> search_cards_by_name lower None name = Inl NotLoaded
   \<and> filter_cards_by_type lower None card_type = Inl NotLoaded
   \<and> filter_cards_by_rarity lower None rarity = Inl NotLoaded
   \<and> filter_cards_by_set lower None set_name = Inl NotLoaded
   \<and> get_stats None = Inl NotLoaded
   \<and> snd (startup_event FileNotFoundError initial_cards_data) = None
   \<and> snd (startup_event JSONDecodeError initial_cards_data) = None"
  by (simp add: get_all_cards_def get_card_by_id_def search_cards_by_name_def
      filter_cards_by_type_def filter_cards_by_rarity_def filter_cards_by_set_def
      filter_cards_def get_stats_def not_data_def startup_event_def initial_cards_data_def)

theorem unpublished_not_loaded_witness:
  "get_all_cards (snd (startup_event FileNotFoundError initial_cards_data)) (Some 10) 0
     = Inl (HTTPException 500 ''Cards data not loaded'')
   \<and> get_card_by_id None ''A1'' ''001'' = Inl (HTTPException 500 ''Cards data not loaded'')
   \<and> get_stats None = Inl (HTTPException 500 ''Cards data not loaded'')"
  using unpublished_not_loaded [of "Some 10" 0 "''A1''" "''001''"]
  by (simp add: NotLoaded_def)

subsection \<open>An empty document\<close>

text \<open>
  Claim C10. When the load succeeds with an empty document, the empty list or the empty
  mapping, the global is assigned but every operation, listing and statistics included,
  fails with the not-loaded error, exactly as it does when nothing was loaded.
\<close>

theorem empty_document_not_loaded:
  "fst (startup_event (Document doc) initial_cards_data) = None
   \<and> snd (startup_event (Document doc) initial_cards_data) = Some doc
   \<and> (doc = JList [] \<or> doc = JDict [] \<longrightarrow>
        get_all_cards (Some doc) limit offset = Inl NotLoaded
      \<and> get_card_by_id (Some doc) set_id card_id = Inl NotLoaded
      \<and> search_cards_by_name lower (Some doc) name = Inl NotLoaded
      \<and> filter_cards_by_type lower (Some doc) card_type = Inl NotLoaded
      \<and> filter_cards_by_rarity lower (Some doc) rarity = Inl NotLoaded
      \<and> filter_cards_by_set lower (Some doc) set_name = Inl NotLoaded
      \<and> get_stats (Some doc) = Inl NotLoaded
      \<and> get_all_cards (Some doc) limit offset = get_all_cards None limit offset
      \<and> get_stats (Some doc) = get_stats None)"
  by (auto simp add: get_all_cards_def get_card_by_id_def search_cards_by_name_def
      filter_cards_by_type_def filter_cards_by_rarity_def filter_cards_by_set_def
      filter_cards_def get_stats_def not_data_def startup_event_def initial_cards_data_def)

theorem empty_document_not_loaded_witness:
  "snd (startup_event (Document (JList [])) initial_cards_data) = Some (JList [])
   \<and> get_all_cards (Some (JList [])) None 0 = Inl (HTTPException 500 ''Cards data not loaded'')
   \<and> get_stats (Some (JList [])) = Inl (HTTPException 500 ''Cards data not loaded'')
   \<and> get_stats (Some (JDict [])) = Inl (HTTPException 500 ''Cards data not loaded'')"
  using empty_document_not_loaded [of "JList []" None 0]
        empty_document_not_loaded [of "JDict []"]
  by (simp add: NotLoaded_def)

subsection \<open>Listing\<close>

text \<open>
  Claim C4, amended. For every document that passes the guard, that is, is not empty, and
  whose record sequence is \<open>cs\<close>, and every offset from 0: without a limit the listing
  is \<open>cs\<close> in its order after the first \<open>offset\<close> records; with a limit of at least 1
  it is the first \<open>limit\<close> of those; an offset at or past the end gives the empty list and
  no error; no limit and offset 0 give all of \<open>cs\<close>.
\<close>

theorem get_all_cards_page:
  assumes "truthy doc" and "select_cards doc = Inr (JList cs)" and "0 \<le> offset"
  shows "get_all_cards (Some doc) None offset = Inr (JList (drop (nat offset) cs))
    \<and> (1 \<le> l \<longrightarrow>
         get_all_cards (Some doc) (Some l) offset
           = Inr (JList (take (nat l) (drop (nat offset) cs))))
    \<and> (int (length cs) \<le> offset \<longrightarrow> get_all_cards (Some doc) limit offset = Inr (JList []))
    \<and> get_all_cards (Some doc) None 0 = Inr (JList cs)"
  using assms(3)
  by (auto simp: listing_cards [OF assms(1,2)] slice_from_def slice_to_def split: option.splits)

theorem get_all_cards_page_witness:
  "get_all_cards (Some (JList [pikachu, bulbasaur])) None 1 = Inr (JList [bulbasaur])
   \<and> get_all_cards (Some (JList [pikachu, bulbasaur])) (Some 1) 0 = Inr (JList [pikachu])
   \<and> get_all_cards (Some (JList [pikachu, bulbasaur])) (Some 5) 2 = Inr (JList [])
   \<and> get_all_cards (Some (JList [pikachu, bulbasaur])) None 0 = Inr (JList [pikachu, bulbasaur])"
  using get_all_cards_page [of "JList [pikachu, bulbasaur]" "[pikachu, bulbasaur]" 1 1 "Some 5"]
        get_all_cards_page [of "JList [pikachu, bulbasaur]" "[pikachu, bulbasaur]" 0 1 "Some 5"]
        get_all_cards_page [of "JList [pikachu, bulbasaur]" "[pikachu, bulbasaur]" 2 1 "Some 5"]
  by simp

text \<open>
  The claim as written covers the empty dataset too: there the listing is not the empty
  sequence but the not-loaded error.
\<close>

theorem get_all_cards_empty_counterexample:
  "get_all_cards (Some (JList [])) None 0 = Inl (HTTPException 500 ''Cards data not loaded'')
   \<and> get_all_cards (Some (JList [])) None 0 \<noteq> Inr (JList [])"
  by (simp add: get_all_cards_def not_data_def NotLoaded_def)

subsection \<open>Search by name\<close>

text \<open>
  Claim C5, amended. For every document that passes the guard, with record sequence
  \<open>cs\<close> whose records have a string for \<open>name\<close> where they have one, the search
  returns exactly the records of \<open>cs\<close>, in order, for which the query, put through
  \<open>str.lower()\<close>, occurs as a contiguous piece in the name (the empty string when the
  field is absent), put through \<open>str.lower()\<close>; when nothing matches that is the empty
  list. This holds whatever the case mapping \<open>lower\<close> is.
\<close>

theorem search_cards_by_name_matches:
  assumes "truthy doc" and "select_cards doc = Inr (JList cs)"
    and "list_all (has_text ''name'') cs"
  shows "search_cards_by_name lower (Some doc) q =
     Inr (filter (\<lambda>c. sublist (lower q) (lower (field_text ''name'' [] c))) cs)"
  using scanning_cards [OF assms(1,2)] search_loop_filter [OF assms(3)] by simp

theorem search_cards_by_name_matches_witness:
  "search_cards_by_name ascii_lower
     (Some (JList [JDict [(''name'', JStr ''Charizard'')], JDict [(''name'', JStr ''Blastoise'')],
                   JDict [(''name'', JStr ''charmander'')], JDict [(''id'', JStr ''/A1/009'')]]))
     ''char''
   = Inr [JDict [(''name'', JStr ''Charizard'')], JDict [(''name'', JStr ''charmander'')]]"
proof -
  have low: "ascii_lower ''char'' = ''char''" "ascii_lower ''Charizard'' = ''charizard''"
    "ascii_lower ''Blastoise'' = ''blastoise''" "ascii_lower ''charmander'' = ''charmander''"
    "ascii_lower [] = []"
    by code_simp+
  show ?thesis
    using search_cards_by_name_matches
      [where doc = "JList [JDict [(''name'', JStr ''Charizard'')],
                  JDict [(''name'', JStr ''Blastoise'')],
                  JDict [(''name'', JStr ''charmander'')], JDict [(''id'', JStr ''/A1/009'')]]"
         and cs = "[JDict [(''name'', JStr ''Charizard'')], JDict [(''name'', JStr ''Blastoise'')],
            JDict [(''name'', JStr ''charmander'')], JDict [(''id'', JStr ''/A1/009'')]]"
         and lower = ascii_lower and q = "''char''"]
    by (simp add: has_text_def field_text_def dict_get_def low str_in_sublist [symmetric])
qed

text \<open>On the empty dataset nothing matches, and the search fails instead of returning.\<close>

theorem search_cards_by_name_empty_counterexample:
  "search_cards_by_name ascii_lower (Some (JList [])) ''char''
     = Inl (HTTPException 500 ''Cards data not loaded'')
   \<and> search_cards_by_name ascii_lower (Some (JList [])) ''char'' \<noteq> Inr []"
  by (simp add: search_cards_by_name_def not_data_def NotLoaded_def)

subsection \<open>Filters\<close>

text \<open>
  Claim C6, amended. For every document that passes the guard, with record sequence
  \<open>cs\<close>, each of the three filters returns exactly the records of \<open>cs\<close>, in order,
  whose field (\<open>type\<close>, \<open>rarity\<close>, \<open>set\<close>; the empty string when absent), put through
  \<open>str.lower()\<close>, is equal to the value put through \<open>str.lower()\<close>: equality of the
  whole string, not containment. This holds whatever the case mapping \<open>lower\<close> is.
\<close>

theorem filter_cards_matches:
  assumes "truthy doc" and "select_cards doc = Inr (JList cs)"
  shows "(list_all (has_text ''type'') cs \<longrightarrow>
            filter_cards_by_type lower (Some doc) v =
              Inr (filter (\<lambda>c. lower (field_text ''type'' [] c) = lower v) cs))
    \<and> (list_all (has_text ''rarity'') cs \<longrightarrow>
            filter_cards_by_rarity lower (Some doc) v =
              Inr (filter (\<lambda>c. lower (field_text ''rarity'' [] c) = lower v) cs))
    \<and> (list_all (has_text ''set'') cs \<longrightarrow>
            filter_cards_by_set lower (Some doc) v =
              Inr (filter (\<lambda>c. lower (field_text ''set'' [] c) = lower v) cs))"
  using scanning_cards [OF assms(1,2)]
  by (simp add: filter_cards_by_type_def filter_cards_by_rarity_def filter_cards_by_set_def
      filter_loop_filter)

theorem filter_cards_matches_witness:
  "filter_cards_by_type ascii_lower
     (Some (JList [JDict [(''type'', JStr ''Fire'')], JDict [(''type'', JStr ''Water'')],
                   JDict [(''type'', JStr ''Fire Energy'')], JDict []])) ''fire''
     = Inr [JDict [(''type'', JStr ''Fire'')]]
   \<and> filter_cards_by_rarity ascii_lower (Some (JList [pikachu, bulbasaur])) ''common''
     = Inr [pikachu, bulbasaur]
   \<and> filter_cards_by_set ascii_lower
       (Some (JDict [(''cards'', JList [pikachu, bulbasaur])])) ''a2''
     = Inr []"
proof -
  have low: "ascii_lower ''fire'' = ''fire''" "ascii_lower ''Fire'' = ''fire''"
    "ascii_lower ''Water'' = ''water''" "ascii_lower ''Fire Energy'' = ''fire energy''"
    "ascii_lower [] = []" "ascii_lower ''common'' = ''common''"
    "ascii_lower ''Common'' = ''common''" "ascii_lower ''a2'' = ''a2''"
    "ascii_lower ''A1'' = ''a1''"
    by code_simp+
  show ?thesis
    using filter_cards_matches
      [where doc = "JList [JDict [(''type'', JStr ''Fire'')], JDict [(''type'', JStr ''Water'')],
                  JDict [(''type'', JStr ''Fire Energy'')], JDict []]"
         and cs = "[JDict [(''type'', JStr ''Fire'')], JDict [(''type'', JStr ''Water'')],
            JDict [(''type'', JStr ''Fire Energy'')], JDict []]"
         and lower = ascii_lower and v = "''fire''"]
      filter_cards_matches [where doc = "JList [pikachu, bulbasaur]"
         and cs = "[pikachu, bulbasaur]" and lower = ascii_lower and v = "''common''"]
      filter_cards_matches [where doc = "JDict [(''cards'', JList [pikachu, bulbasaur])]"
         and cs = "[pikachu, bulbasaur]" and lower = ascii_lower and v = "''a2''"]
    by (simp add: has_text_def field_text_def dict_get_def low pikachu_def bulbasaur_def)
qed

text \<open>On the empty dataset a filter fails instead of returning the empty list.\<close>

theorem filter_cards_empty_counterexample:
  "filter_cards_by_type ascii_lower (Some (JList [])) ''fire''
     = Inl (HTTPException 500 ''Cards data not loaded'')
   \<and> filter_cards_by_type ascii_lower (Some (JList [])) ''fire'' \<noteq> Inr []"
  by (simp add: filter_cards_by_type_def filter_cards_def not_data_def NotLoaded_def)

subsection \<open>Statistics\<close>

text \<open>
  Claim C7, amended. For every document that passes the guard, with a sequence \<open>cs\<close>
  of \<open>N\<close> records, the statistics return a result whose total is \<open>N\<close>; in each of the
  three tables the count of a label is the number of records whose field, \<open>Unknown\<close>
  when absent, is that very label, case included; the labels of a table are the ones that
  occur; and the counts of each table add up to \<open>N\<close>.
\<close>

theorem get_stats_counts:
  assumes "truthy doc" and "select_cards doc = Inr (JList cs)"
    and "list_all stats_record cs"
  shows "\<exists>r. get_stats (Some doc) = Inr r
    \<and> total_cards r = int (length cs)
    \<and> sum_list (map snd (types r)) = int (length cs)
    \<and> sum_list (map snd (rarities r)) = int (length cs)
    \<and> sum_list (map snd (sets r)) = int (length cs)
    \<and> (\<forall>l. tbl_get (types r) (JStr l) 0
            = int (length (filter (\<lambda>c. field_text ''type'' ''Unknown'' c = l) cs)))
    \<and> (\<forall>l. tbl_get (rarities r) (JStr l) 0
            = int (length (filter (\<lambda>c. field_text ''rarity'' ''Unknown'' c = l) cs)))
    \<and> (\<forall>l. tbl_get (sets r) (JStr l) 0
            = int (length (filter (\<lambda>c. field_text ''set'' ''Unknown'' c = l) cs)))
    \<and> fst ` set (types r) = (\<lambda>c. JStr (field_text ''type'' ''Unknown'' c)) ` set cs
    \<and> fst ` set (rarities r) = (\<lambda>c. JStr (field_text ''rarity'' ''Unknown'' c)) ` set cs
    \<and> fst ` set (sets r) = (\<lambda>c. JStr (field_text ''set'' ''Unknown'' c)) ` set cs"
proof -
  have lab: "list_all (\<lambda>c. is_str (label f c)) cs"
    if "f = ''type'' \<or> f = ''rarity'' \<or> f = ''set''" for f
    using assms(3) that
    by (auto simp: list_all_iff stats_record_def label_def has_text_default)
  have lab_text: "str_of (label f c) = field_text f ''Unknown'' c" for f c
    by (simp add: label_def field_text_def)
  have js: "label f ` set cs = (\<lambda>c. JStr (field_text f ''Unknown'' c)) ` set cs"
    if "f = ''type'' \<or> f = ''rarity'' \<or> f = ''set''" for f
  proof (rule image_cong [OF refl])
    fix c assume "c \<in> set cs"
    with lab [OF that] have "is_str (label f c)"
      by (simp add: list_all_iff)
    then show "label f c = JStr (field_text f ''Unknown'' c)"
      by (cases "label f c") (simp_all add: lab_text [symmetric])
  qed
  have run: "get_stats (Some doc) =
      Inr \<lparr>total_cards = int (length cs),
           types = fold (\<lambda>c t. tally t (label ''type'' c)) cs [],
           rarities = fold (\<lambda>c t. tally t (label ''rarity'' c)) cs [],
           sets = fold (\<lambda>c t. tally t (label ''set'' c)) cs []\<rparr>"
    using assms(1,2) by (simp add: get_stats_def not_data_def stats_loop_fold [OF assms(3)])
  show ?thesis
    unfolding run
    by (simp add: sum_fold_tally get_fold_tally [OF lab] keys_fold_tally [OF lab] lab_text js)
qed

theorem get_stats_counts_witness:
  "\<exists>r. get_stats (Some (JList [pikachu, bulbasaur])) = Inr r
     \<and> total_cards r = 2
     \<and> sum_list (map snd (types r)) = 2
     \<and> tbl_get (types r) (JStr ''Electric'') 0 = 1
     \<and> tbl_get (types r) (JStr ''electric'') 0 = 0
     \<and> tbl_get (rarities r) (JStr ''Common'') 0 = 2
     \<and> tbl_get (sets r) (JStr ''A1'') 0 = 2"
  using get_stats_counts [of "JList [pikachu, bulbasaur]" "[pikachu, bulbasaur]"]
  by (auto simp add: stats_record_def has_text_def field_text_def dict_get_def
      pikachu_def bulbasaur_def)

text \<open>For a dataset of no records the result is not a total of 0 but the not-loaded error.\<close>

theorem get_stats_empty_counterexample:
  "get_stats (Some (JList [])) = Inl (HTTPException 500 ''Cards data not loaded'')
   \<and> (\<forall>r. get_stats (Some (JList [])) \<noteq> Inr r)"
  by (simp add: get_stats_def not_data_def NotLoaded_def)

subsection \<open>The record sequence of a document\<close>

text \<open>
  Claim C3, amended. Listing, search, the three filters and the statistics take their
  record sequence as follows. A top-level list is the sequence itself: listed whole, it
  comes back as it is. For a top-level
  mapping with a key \<open>cards\<close>, the value bound to that key is used, whatever it is, and
  nothing else of the mapping: the six answers are those on the mapping that has this
  binding alone; when the value is a non-empty list they are the answers on that list as
  a top-level list; when it is the empty list they are empty results; when it cannot be
  iterated all six fail; when it is a mapping or a string it is not a sequence of records,
  so that an empty one gives empty results and any other makes the scans fail. Only for a
  mapping without the key \<open>cards\<close> are the answers those on the list of the mapping's
  values, in the mapping's order.
\<close>

theorem dataset_selection:
  "(map_of d ''cards'' = Some v \<longrightarrow>
      answers lower (Some (JDict d)) limit offset q
        = answers lower (Some (JDict [(''cards'', v)])) limit offset q)
   \<and> (map_of d ''cards'' = Some (JList cs) \<and> cs \<noteq> [] \<longrightarrow>
      answers lower (Some (JDict d)) limit offset q
        = answers lower (Some (JList cs)) limit offset q)
   \<and> (map_of d ''cards'' = Some (JList []) \<longrightarrow>
      answers lower (Some (JDict d)) limit offset q
        = (Inr (JList []), Inr [], Inr [], Inr [], Inr [], Inr no_stats))
   \<and> (map_of d ''cards'' = Some v \<and> not_iterable v \<longrightarrow>
      answers lower (Some (JDict d)) limit offset q
        = (Inl Uncaught, Inl Uncaught, Inl Uncaught, Inl Uncaught, Inl Uncaught, Inl Uncaught))
   \<and> (map_of d ''cards'' = Some (JDict []) \<longrightarrow>
      answers lower (Some (JDict d)) limit offset q
        = (Inl Uncaught, Inr [], Inr [], Inr [], Inr [], Inr no_stats))
   \<and> (map_of d ''cards'' = Some (JDict m) \<and> m \<noteq> [] \<longrightarrow>
      answers lower (Some (JDict d)) limit offset q
        = (Inl Uncaught, Inl Uncaught, Inl Uncaught, Inl Uncaught, Inl Uncaught, Inl Uncaught))
   \<and> (map_of d ''cards'' = Some (JStr []) \<longrightarrow>
      answers lower (Some (JDict d)) limit offset q
        = (Inr (JStr []), Inr [], Inr [], Inr [], Inr [], Inr no_stats))
   \<and> (map_of d ''cards'' = Some (JStr s) \<and> s \<noteq> [] \<longrightarrow>
      get_all_cards (Some (JDict d)) None 0 = Inr (JStr s)
      \<and> snd (answers lower (Some (JDict d)) limit offset q)
        = (Inl Uncaught, Inl Uncaught, Inl Uncaught, Inl Uncaught, Inl Uncaught))
   \<and> (map_of d ''cards'' = None \<and> d \<noteq> [] \<longrightarrow>
      answers lower (Some (JDict d)) limit offset q
        = answers lower (Some (JList (map snd d))) limit offset q)
   \<and> (cs \<noteq> [] \<longrightarrow> get_all_cards (Some (JList cs)) None 0 = Inr (JList cs))"
proof (intro conjI impI)
  assume "map_of d ''cards'' = Some v"
  then show "answers lower (Some (JDict d)) limit offset q
        = answers lower (Some (JDict [(''cards'', v)])) limit offset q"
    by (simp add: cards_bound)
next
  assume a: "map_of d ''cards'' = Some (JList cs) \<and> cs \<noteq> []"
  then have sel: "select_cards (JDict d) = Inr (JList cs)" and ne: "cs \<noteq> []"
    by (simp_all add: dict_get_def)
  show "answers lower (Some (JDict d)) limit offset q
        = answers lower (Some (JList cs)) limit offset q"
    unfolding answers_def filter_cards_by_type_def filter_cards_by_rarity_def
      filter_cards_by_set_def
    by (simp only: selected_ops [OF sel ne])
next
  assume "map_of d ''cards'' = Some (JList [])"
  then show "answers lower (Some (JDict d)) limit offset q
        = (Inr (JList []), Inr [], Inr [], Inr [], Inr [], Inr no_stats)"
    by (simp add: cards_bound no_stats_def slice_from_def slice_to_def split: option.splits)
next
  assume "map_of d ''cards'' = Some v \<and> not_iterable v"
  then show "answers lower (Some (JDict d)) limit offset q
        = (Inl Uncaught, Inl Uncaught, Inl Uncaught, Inl Uncaught, Inl Uncaught, Inl Uncaught)"
    by (cases v) (simp_all add: cards_bound)
next
  assume "map_of d ''cards'' = Some (JDict [])"
  then show "answers lower (Some (JDict d)) limit offset q
        = (Inl Uncaught, Inr [], Inr [], Inr [], Inr [], Inr no_stats)"
    by (simp add: cards_bound no_stats_def)
next
  assume a: "map_of d ''cards'' = Some (JDict m) \<and> m \<noteq> []"
  then obtain kv m' where m: "m = kv # m'"
    by (cases m) auto
  from a show "answers lower (Some (JDict d)) limit offset q
        = (Inl Uncaught, Inl Uncaught, Inl Uncaught, Inl Uncaught, Inl Uncaught, Inl Uncaught)"
    by (simp add: cards_bound m)
next
  assume "map_of d ''cards'' = Some (JStr [])"
  then show "answers lower (Some (JDict d)) limit offset q
        = (Inr (JStr []), Inr [], Inr [], Inr [], Inr [], Inr no_stats)"
    by (simp add: cards_bound no_stats_def slice_from_def slice_to_def split: option.splits)
next
  assume a: "map_of d ''cards'' = Some (JStr s) \<and> s \<noteq> []"
  then obtain c s' where s: "s = c # s'"
    by (cases s) auto
  from a have "d \<noteq> []" by auto
  with a show "get_all_cards (Some (JDict d)) None 0 = Inr (JStr s)"
    by (simp add: get_all_cards_def not_data_def dict_get_def slice_from_def)
  from a show "snd (answers lower (Some (JDict d)) limit offset q)
        = (Inl Uncaught, Inl Uncaught, Inl Uncaught, Inl Uncaught, Inl Uncaught)"
    by (simp add: cards_bound s)
next
  assume a: "map_of d ''cards'' = None \<and> d \<noteq> []"
  then have sel: "select_cards (JDict d) = Inr (JList (map snd d))" and ne: "map snd d \<noteq> []"
    by (simp_all add: dict_get_def dict_values_def)
  show "answers lower (Some (JDict d)) limit offset q
        = answers lower (Some (JList (map snd d))) limit offset q"
    unfolding answers_def filter_cards_by_type_def filter_cards_by_rarity_def
      filter_cards_by_set_def
    by (simp only: selected_ops [OF sel ne])
next
  assume "cs \<noteq> []"
  then show "get_all_cards (Some (JList cs)) None 0 = Inr (JList cs)"
    by (simp add: get_all_cards_def not_data_def slice_from_def)
qed

theorem dataset_selection_witness:
  "answers ascii_lower (Some (JDict [(''cards'', JDict []), (''a'', pikachu)])) None 0 ''pika''
     = answers ascii_lower (Some (JDict [(''cards'', JDict [])])) None 0 ''pika''
   \<and> answers ascii_lower (Some (JDict [(''version'', JInt 1), (''cards'', JList [pikachu, bulbasaur])])) None 0 ''pika''
     = answers ascii_lower (Some (JList [pikachu, bulbasaur])) None 0 ''pika''
   \<and> answers ascii_lower (Some (JDict [(''cards'', JList []), (''a'', pikachu)])) None 0 ''pika''
     = (Inr (JList []), Inr [], Inr [], Inr [], Inr [], Inr no_stats)
   \<and> answers ascii_lower (Some (JDict [(''cards'', JNull), (''a'', pikachu)])) None 0 ''pika''
     = (Inl Uncaught, Inl Uncaught, Inl Uncaught, Inl Uncaught, Inl Uncaught, Inl Uncaught)
   \<and> answers ascii_lower (Some (JDict [(''cards'', JDict []), (''a'', pikachu)])) None 0 ''pika''
     = (Inl Uncaught, Inr [], Inr [], Inr [], Inr [], Inr no_stats)
   \<and> answers ascii_lower (Some (JDict [(''cards'', JDict [(''a'', pikachu)])])) None 0 ''pika''
     = (Inl Uncaught, Inl Uncaught, Inl Uncaught, Inl Uncaught, Inl Uncaught, Inl Uncaught)
   \<and> answers ascii_lower (Some (JDict [(''cards'', JStr []), (''a'', pikachu)])) None 0 ''pika''
     = (Inr (JStr []), Inr [], Inr [], Inr [], Inr [], Inr no_stats)
   \<and> get_all_cards (Some (JDict [(''cards'', JStr ''ab'')])) None 0 = Inr (JStr ''ab'')
   \<and> snd (answers ascii_lower (Some (JDict [(''cards'', JStr ''ab'')])) (Some 1) 1 ''pika'')
     = (Inl Uncaught, Inl Uncaught, Inl Uncaught, Inl Uncaught, Inl Uncaught)
   \<and> answers ascii_lower (Some (JDict [(''a'', pikachu), (''b'', bulbasaur)])) None 0 ''pika''
     = answers ascii_lower (Some (JList [pikachu, bulbasaur])) None 0 ''pika''
   \<and> get_all_cards (Some (JList [pikachu, bulbasaur])) None 0 = Inr (JList [pikachu, bulbasaur])"
proof -
  have w1: "answers ascii_lower (Some (JDict [(''cards'', JDict []), (''a'', pikachu)])) None 0 ''pika''
        = answers ascii_lower (Some (JDict [(''cards'', JDict [])])) None 0 ''pika''"
    using dataset_selection [where d = "[(''cards'', JDict []), (''a'', pikachu)]"
        and v = "JDict []" and cs = "[]" and m = "[]" and s = "[]"
        and lower = ascii_lower and limit = "None" and offset = 0 and q = "''pika''",
        THEN conjunct1]
    by simp
  have w2: "answers ascii_lower (Some (JDict [(''version'', JInt 1), (''cards'', JList [pikachu, bulbasaur])])) None 0 ''pika''
        = answers ascii_lower (Some (JList [pikachu, bulbasaur])) None 0 ''pika''"
    using dataset_selection [where d = "[(''version'', JInt 1), (''cards'', JList [pikachu, bulbasaur])]"
        and v = "JDict []" and cs = "[pikachu, bulbasaur]" and m = "[]" and s = "[]"
        and lower = ascii_lower and limit = "None" and offset = 0 and q = "''pika''",
        THEN conjunct2, THEN conjunct1]
    by simp
  have w3: "answers ascii_lower (Some (JDict [(''cards'', JList []), (''a'', pikachu)])) None 0 ''pika''
        = (Inr (JList []), Inr [], Inr [], Inr [], Inr [], Inr no_stats)"
    using dataset_selection [where d = "[(''cards'', JList []), (''a'', pikachu)]"
        and v = "JDict []" and cs = "[]" and m = "[]" and s = "[]"
        and lower = ascii_lower and limit = "None" and offset = 0 and q = "''pika''",
        THEN conjunct2, THEN conjunct2, THEN conjunct1]
    by simp
  have w4: "answers ascii_lower (Some (JDict [(''cards'', JNull), (''a'', pikachu)])) None 0 ''pika''
        = (Inl Uncaught, Inl Uncaught, Inl Uncaught, Inl Uncaught, Inl Uncaught, Inl Uncaught)"
    using dataset_selection [where d = "[(''cards'', JNull), (''a'', pikachu)]"
        and v = "JNull" and cs = "[]" and m = "[]" and s = "[]"
        and lower = ascii_lower and limit = "None" and offset = 0 and q = "''pika''",
        THEN conjunct2, THEN conjunct2, THEN conjunct2, THEN conjunct1]
    by simp
  have w5: "answers ascii_lower (Some (JDict [(''cards'', JDict []), (''a'', pikachu)])) None 0 ''pika''
        = (Inl Uncaught, Inr [], Inr [], Inr [], Inr [], Inr no_stats)"
    using dataset_selection [where d = "[(''cards'', JDict []), (''a'', pikachu)]"
        and v = "JDict []" and cs = "[]" and m = "[]" and s = "[]"
        and lower = ascii_lower and limit = "None" and offset = 0 and q = "''pika''",
        THEN conjunct2, THEN conjunct2, THEN conjunct2, THEN conjunct2,
        THEN conjunct1]
    by simp
  have w6: "answers ascii_lower (Some (JDict [(''cards'', JDict [(''a'', pikachu)])])) None 0 ''pika''
        = (Inl Uncaught, Inl Uncaught, Inl Uncaught, Inl Uncaught, Inl Uncaught, Inl Uncaught)"
    using dataset_selection [where d = "[(''cards'', JDict [(''a'', pikachu)])]"
        and v = "JDict []" and cs = "[]" and m = "[(''a'', pikachu)]" and s = "[]"
        and lower = ascii_lower and limit = "None" and offset = 0 and q = "''pika''",
        THEN conjunct2, THEN conjunct2, THEN conjunct2, THEN conjunct2,
        THEN conjunct2, THEN conjunct1]
    by simp
  have w7: "answers ascii_lower (Some (JDict [(''cards'', JStr []), (''a'', pikachu)])) None 0 ''pika''
        = (Inr (JStr []), Inr [], Inr [], Inr [], Inr [], Inr no_stats)"
    using dataset_selection [where d = "[(''cards'', JStr []), (''a'', pikachu)]"
        and v = "JDict []" and cs = "[]" and m = "[]" and s = "[]"
        and lower = ascii_lower and limit = "None" and offset = 0 and q = "''pika''",
        THEN conjunct2, THEN conjunct2, THEN conjunct2, THEN conjunct2,
        THEN conjunct2, THEN conjunct2, THEN conjunct1]
    by simp
  have w8: "get_all_cards (Some (JDict [(''cards'', JStr ''ab'')])) None 0 = Inr (JStr ''ab'')
      \<and> snd (answers ascii_lower (Some (JDict [(''cards'', JStr ''ab'')])) (Some 1) 1 ''pika'')
        = (Inl Uncaught, Inl Uncaught, Inl Uncaught, Inl Uncaught, Inl Uncaught)"
    using dataset_selection [where d = "[(''cards'', JStr ''ab'')]"
        and v = "JDict []" and cs = "[]" and m = "[]" and s = "''ab''"
        and lower = ascii_lower and limit = "Some 1" and offset = 1 and q = "''pika''",
        THEN conjunct2, THEN conjunct2, THEN conjunct2, THEN conjunct2,
        THEN conjunct2, THEN conjunct2, THEN conjunct2, THEN conjunct1]
    by simp
  have w9: "answers ascii_lower (Some (JDict [(''a'', pikachu), (''b'', bulbasaur)])) None 0 ''pika''
        = answers ascii_lower (Some (JList [pikachu, bulbasaur])) None 0 ''pika''"
    using dataset_selection [where d = "[(''a'', pikachu), (''b'', bulbasaur)]"
        and v = "JDict []" and cs = "[]" and m = "[]" and s = "[]"
        and lower = ascii_lower and limit = "None" and offset = 0 and q = "''pika''",
        THEN conjunct2, THEN conjunct2, THEN conjunct2, THEN conjunct2,
        THEN conjunct2, THEN conjunct2, THEN conjunct2, THEN conjunct2,
        THEN conjunct1]
    by simp
  have w10: "get_all_cards (Some (JList [pikachu, bulbasaur])) None 0 = Inr (JList [pikachu, bulbasaur])"
    using dataset_selection [where d = "[]"
        and v = "JDict []" and cs = "[pikachu, bulbasaur]" and m = "[]" and s = "[]"
        and lower = ascii_lower and limit = "None" and offset = 0 and q = "''pika''",
        THEN conjunct2, THEN conjunct2, THEN conjunct2, THEN conjunct2,
        THEN conjunct2, THEN conjunct2, THEN conjunct2, THEN conjunct2,
        THEN conjunct2]
    by simp
  from w1 w2 w3 w4 w5 w6 w7 w8 w9 w10 show ?thesis
    by simp
qed

text \<open>
  The claim sends a mapping whose \<open>cards\<close> is not a sequence to the mapping's values. The
  code takes what \<open>cards\<close> is bound to: here an empty mapping, so the search finds
  nothing, where the values hold a record that matches.
\<close>

theorem cards_not_sequence_counterexample:
  "select_cards (JDict [(''cards'', JDict []), (''a'', pikachu)]) = Inr (JDict [])
   \<and> dict_values [(''cards'', JDict []), (''a'', pikachu)] = [JDict [], pikachu]
   \<and> search_cards_by_name ascii_lower
        (Some (JDict [(''cards'', JDict []), (''a'', pikachu)])) ''pika''
       = Inr []
   \<and> search_cards_by_name ascii_lower (Some (JList [JDict [], pikachu])) ''pika''
       = Inr [pikachu]"
proof -
  have low: "ascii_lower ''pika'' = ''pika''" "ascii_lower ''Pikachu'' = ''pikachu''"
    "ascii_lower [] = []"
    by code_simp+
  show ?thesis
    by (simp add: search_cards_by_name_def not_data_def dict_get_def dict_values_def
        pikachu_def low)
qed

subsection \<open>Case of the argument\<close>

text \<open>
  Claim C2, amended. For search by name and the three filters, on any state of the
  global and whatever the case mapping is, two arguments with the same lower-cased form
  give the same result; so the result does not change when the argument is replaced by
  its lower-cased form, which the case mapping leaves as it is (as the mapping of the
  ASCII letters always does). Lookup by key is not among them: it compares the key as
  it is.
\<close>

theorem matching_ignores_case:
  "(lower a = lower b \<longrightarrow>
       search_cards_by_name lower data a = search_cards_by_name lower data b
     \<and> filter_cards_by_type lower data a = filter_cards_by_type lower data b
     \<and> filter_cards_by_rarity lower data a = filter_cards_by_rarity lower data b
     \<and> filter_cards_by_set lower data a = filter_cards_by_set lower data b)
   \<and> (lower (lower a) = lower a \<longrightarrow>
       search_cards_by_name lower data (lower a) = search_cards_by_name lower data a
     \<and> filter_cards_by_type lower data (lower a) = filter_cards_by_type lower data a
     \<and> filter_cards_by_rarity lower data (lower a) = filter_cards_by_rarity lower data a
     \<and> filter_cards_by_set lower data (lower a) = filter_cards_by_set lower data a)
   \<and> search_cards_by_name ascii_lower data (ascii_lower a)
       = search_cards_by_name ascii_lower data a
   \<and> filter_cards_by_type ascii_lower data (ascii_lower a)
       = filter_cards_by_type ascii_lower data a
   \<and> filter_cards_by_rarity ascii_lower data (ascii_lower a)
       = filter_cards_by_rarity ascii_lower data a
   \<and> filter_cards_by_set ascii_lower data (ascii_lower a)
       = filter_cards_by_set ascii_lower data a"
proof -
  have ops: "search_cards_by_name low data x = search_cards_by_name low data y
      \<and> filter_cards low f data x = filter_cards low f data y"
    if "low x = low y" for x y f and low :: "string \<Rightarrow> string"
    by (simp add: search_cards_by_name_def filter_cards_def
        search_loop_lower [of low x y, OF that] filter_loop_lower [of low x y, OF that]
        split: sum.splits)
  show ?thesis
    using ops [of lower a b] ops [of lower "lower a" a]
      ops [of ascii_lower "ascii_lower a" a, OF ascii_lower_idem]
    by (simp add: filter_cards_by_type_def filter_cards_by_rarity_def filter_cards_by_set_def)
qed

theorem matching_ignores_case_witness:
  "ascii_lower ''PIKA'' = ascii_lower ''pika''
   \<and> ascii_lower (ascii_lower ''PIKA'') = ascii_lower ''PIKA''
   \<and> search_cards_by_name ascii_lower (Some (JList [pikachu, bulbasaur])) ''PIKA''
     = search_cards_by_name ascii_lower (Some (JList [pikachu, bulbasaur])) ''pika''
   \<and> filter_cards_by_rarity ascii_lower (Some (JList [pikachu, bulbasaur])) ''PIKA''
     = filter_cards_by_rarity ascii_lower (Some (JList [pikachu, bulbasaur])) ''pika''
   \<and> search_cards_by_name ascii_lower (Some (JList [pikachu, bulbasaur])) (ascii_lower ''PIKA'')
     = search_cards_by_name ascii_lower (Some (JList [pikachu, bulbasaur])) ''PIKA''"
proof -
  have low: "ascii_lower ''PIKA'' = ascii_lower ''pika''"
    "ascii_lower (ascii_lower ''PIKA'') = ascii_lower ''PIKA''"
    by code_simp+
  with matching_ignores_case [where lower = ascii_lower and a = "''PIKA''" and b = "''pika''"
      and data = "Some (JList [pikachu, bulbasaur])"]
  show ?thesis by simp
qed

text \<open>Lookup by key finds \<open>/A1/001\<close> under \<open>A1\<close> and not under \<open>a1\<close>.\<close>

theorem get_card_by_id_case_counterexample:
  "ascii_lower ''A1'' = ''a1''
   \<and> get_card_by_id (Some (JList [pikachu])) ''A1'' ''001'' = Inr pikachu
   \<and> get_card_by_id (Some (JList [pikachu])) ''a1'' ''001''
       = Inl (HTTPException 404 ''Card not found'')"
proof -
  have low: "ascii_lower ''A1'' = ''a1''"
    by code_simp
  show ?thesis
    by (simp add: low get_card_by_id_def not_data_def found_or_404_def dict_get_def
        pikachu_def NotFound_def)
qed

subsection \<open>Lookup by key\<close>

text \<open>
  Claim C1, amended. For a document that is a non-empty top-level list of records, or a
  mapping whose \<open>cards\<close> is a list of records and that has no key equal to the composite
  key, lookup returns the first record, in order, whose \<open>id\<close> printed by \<open>str\<close> is the
  composite key \<open>/set_id/card_id\<close>, and fails with the not-found error when there is
  none. Only an \<open>id\<close> that is this very string prints as the key.
\<close>

theorem get_card_by_id_first:
  assumes "doc = JList cs \<and> cs \<noteq> []
     \<or> doc = JDict d \<and> map_of d ''cards'' = Some (JList cs)
         \<and> map_of d (''/'' @ set_id @ ''/'' @ card_id) = None"
    and "list_all is_record cs"
  shows "get_card_by_id (Some doc) set_id card_id =
      (case find (\<lambda>c. py_str (field_value ''id'' JNull c) = ''/'' @ set_id @ ''/'' @ card_id) cs of
         Some c \<Rightarrow> Inr c
       | None \<Rightarrow> Inl NotFound)
    \<and> (\<forall>v. py_str v = ''/'' @ set_id @ ''/'' @ card_id
            \<longleftrightarrow> v = JStr (''/'' @ set_id @ ''/'' @ card_id))"
proof
  from assms(1) show "get_card_by_id (Some doc) set_id card_id =
      (case find (\<lambda>c. py_str (field_value ''id'' JNull c) = ''/'' @ set_id @ ''/'' @ card_id) cs of
         Some c \<Rightarrow> Inr c
       | None \<Rightarrow> Inl NotFound)"
  proof
    assume "doc = JList cs \<and> cs \<noteq> []"
    then show ?thesis
      using scan_result [OF assms(2)] by (simp add: get_card_by_id_def not_data_def)
  next
    assume "doc = JDict d \<and> map_of d ''cards'' = Some (JList cs)
         \<and> map_of d (''/'' @ set_id @ ''/'' @ card_id) = None"
    moreover from this have "d \<noteq> []" by auto
    ultimately show ?thesis
      using scan_result [OF assms(2)]
      by (simp add: get_card_by_id_def not_data_def dict_get_def)
  qed
  show "\<forall>v. py_str v = ''/'' @ set_id @ ''/'' @ card_id
            \<longleftrightarrow> v = JStr (''/'' @ set_id @ ''/'' @ card_id)"
    using py_str_slash by simp
qed

theorem get_card_by_id_first_witness:
  "get_card_by_id (Some (JList [pikachu, bulbasaur])) ''A1'' ''002'' = Inr bulbasaur
   \<and> get_card_by_id (Some (JList [pikachu, bulbasaur])) ''A1'' ''003''
       = Inl (HTTPException 404 ''Card not found'')
   \<and> get_card_by_id (Some (JDict [(''cards'', JList [pikachu, bulbasaur])])) ''A1'' ''001''
       = Inr pikachu"
  using get_card_by_id_first [of "JList [pikachu, bulbasaur]" "[pikachu, bulbasaur]" "[]" "''A1''" "''002''"]
    get_card_by_id_first [of "JList [pikachu, bulbasaur]" "[pikachu, bulbasaur]" "[]" "''A1''" "''003''"]
    get_card_by_id_first [of "JDict [(''cards'', JList [pikachu, bulbasaur])]" "[pikachu, bulbasaur]"
      "[(''cards'', JList [pikachu, bulbasaur])]" "''A1''" "''001''"]
  by (simp add: pikachu_def bulbasaur_def dict_get_def NotFound_def)

text \<open>
  For a mapping without \<open>cards\<close> the dataset is the mapping's values, and lookup does
  not find the record among them; for the empty list lookup fails with the not-loaded
  error, not the not-found one.
\<close>

theorem get_card_by_id_values_counterexample:
  "select_cards (JDict [(''a'', pikachu)]) = Inr (JList [pikachu])
   \<and> field_value ''id'' JNull pikachu = JStr ''/A1/001''
   \<and> get_card_by_id (Some (JDict [(''a'', pikachu)])) ''A1'' ''001''
       = Inl (HTTPException 404 ''Card not found'')
   \<and> get_card_by_id (Some (JList [])) ''A1'' ''001''
       = Inl (HTTPException 500 ''Cards data not loaded'')"
  by (simp add: get_card_by_id_def not_data_def found_or_404_def dict_get_def dict_values_def
      pikachu_def NotFound_def NotLoaded_def)

text \<open>
  Claim C9, amended. For a document that is a top-level mapping: when the composite key
  is a key of the mapping, lookup returns the value bound to it, whatever that value is;
  otherwise, for a non-empty mapping without \<open>cards\<close>, it fails with the not-found error,
  whatever the values of the mapping are; and for a mapping whose \<open>cards\<close> is a list of
  records it returns the first record of that list whose \<open>id\<close> prints as the key, or
  fails with the not-found error.
\<close>

theorem get_card_by_id_mapping:
  "(map_of d (''/'' @ set_id @ ''/'' @ card_id) = Some v \<longrightarrow>
      get_card_by_id (Some (JDict d)) set_id card_id = Inr v)
   \<and> (d \<noteq> [] \<and> map_of d (''/'' @ set_id @ ''/'' @ card_id) = None
        \<and> map_of d ''cards'' = None \<longrightarrow>
      get_card_by_id (Some (JDict d)) set_id card_id = Inl NotFound)
   \<and> (map_of d (''/'' @ set_id @ ''/'' @ card_id) = None
        \<and> map_of d ''cards'' = Some (JList cs) \<and> list_all is_record cs \<longrightarrow>
      get_card_by_id (Some (JDict d)) set_id card_id =
        (case find (\<lambda>c. py_str (field_value ''id'' JNull c) = ''/'' @ set_id @ ''/'' @ card_id) cs of
           Some c \<Rightarrow> Inr c
         | None \<Rightarrow> Inl NotFound))"
proof (intro conjI impI)
  assume "map_of d (''/'' @ set_id @ ''/'' @ card_id) = Some v"
  moreover from this have "d \<noteq> []" by auto
  ultimately show "get_card_by_id (Some (JDict d)) set_id card_id = Inr v"
    by (simp add: get_card_by_id_def not_data_def)
next
  assume "d \<noteq> [] \<and> map_of d (''/'' @ set_id @ ''/'' @ card_id) = None
        \<and> map_of d ''cards'' = None"
  then show "get_card_by_id (Some (JDict d)) set_id card_id = Inl NotFound"
    by (simp add: get_card_by_id_def not_data_def dict_get_def found_or_404_def)
next
  assume a: "map_of d (''/'' @ set_id @ ''/'' @ card_id) = None
        \<and> map_of d ''cards'' = Some (JList cs) \<and> list_all is_record cs"
  then have "d \<noteq> []" by auto
  with a show "get_card_by_id (Some (JDict d)) set_id card_id =
        (case find (\<lambda>c. py_str (field_value ''id'' JNull c) = ''/'' @ set_id @ ''/'' @ card_id) cs of
           Some c \<Rightarrow> Inr c
         | None \<Rightarrow> Inl NotFound)"
    using scan_result [of cs "''/'' @ set_id @ ''/'' @ card_id"]
    by (simp add: get_card_by_id_def not_data_def dict_get_def)
qed

theorem get_card_by_id_mapping_witness:
  "get_card_by_id (Some (JDict [(''/A1/001'', JStr ''anything'')])) ''A1'' ''001''
       = Inr (JStr ''anything'')
   \<and> get_card_by_id (Some (JDict [(''a'', pikachu), (''b'', bulbasaur)])) ''A1'' ''001''
       = Inl (HTTPException 404 ''Card not found'')
   \<and> get_card_by_id (Some (JDict [(''a'', pikachu), (''cards'', JList [bulbasaur])])) ''A1'' ''001''
       = Inl (HTTPException 404 ''Card not found'')
   \<and> get_card_by_id (Some (JDict [(''a'', pikachu), (''cards'', JList [bulbasaur])])) ''A1'' ''002''
       = Inr bulbasaur"
  using get_card_by_id_mapping [of "[(''/A1/001'', JStr ''anything'')]" "''A1''" "''001''"
          "JStr ''anything''" "[]"]
    get_card_by_id_mapping [of "[(''a'', pikachu), (''b'', bulbasaur)]" "''A1''" "''001''" JNull "[]"]
    get_card_by_id_mapping [of "[(''a'', pikachu), (''cards'', JList [bulbasaur])]" "''A1''"
          "''001''" JNull "[bulbasaur]"]
    get_card_by_id_mapping [of "[(''a'', pikachu), (''cards'', JList [bulbasaur])]" "''A1''"
          "''002''" JNull "[bulbasaur]"]
  by (simp add: pikachu_def bulbasaur_def dict_get_def NotFound_def)

text \<open>The empty mapping has no \<open>cards\<close>, and lookup fails with the not-loaded error.\<close>

theorem get_card_by_id_empty_mapping_counterexample:
  "get_card_by_id (Some (JDict [])) ''A1'' ''001''
       = Inl (HTTPException 500 ''Cards data not loaded'')
   \<and> get_card_by_id (Some (JDict [])) ''A1'' ''001''
       \<noteq> Inl (HTTPException 404 ''Card not found'')"
  by (simp add: get_card_by_id_def not_data_def NotLoaded_def)

end
